theory Spec2Isabelle
  imports Complex_Main "HOL-Library.Sublist"
begin

section \<open>Embedding of monitor\_status\_lite\<close>

text \<open>
  The plugin is Python. Its integers are unbounded (\<open>int\<close>, \<open>nat\<close> where a value is a
  length or a byte count), its strings are modelled as UTF-8 byte lists (\<open>string\<close>), so that
  the Chinese and emoji literals of the source are written as their bytes, and its floats
  (megabytes, percentages) are modelled as exact \<open>real\<close> numbers: no IEEE rounding is
  modelled, and a threshold comparison is the comparison of the exact values.
\<close>

subsection \<open>Rendering integers, as an f-string does\<close>

fun str_nat :: "nat \<Rightarrow> string" where
  "str_nat n =
     (if n < 10 then [''0123456789'' ! n]
      else str_nat (n div 10) @ [''0123456789'' ! (n mod 10)])"

declare str_nat.simps [simp del]

definition str_int :: "int \<Rightarrow> string" where
  "str_int i = (if i < 0 then CHR ''-'' # str_nat (nat (- i)) else str_nat (nat i))"

subsection \<open>plugin.py: format\_duration\<close>

text \<open>The unit suffixes of the source: U+5929, U+5C0F U+65F6, U+5206, U+79D2.\<close>

definition unit_day :: string where
  "unit_day = [CHR 0xE5, CHR 0xA4, CHR 0xA9]"

definition unit_hour :: string where
  "unit_hour = [CHR 0xE5, CHR 0xB0, CHR 0x8F, CHR 0xE6, CHR 0x97, CHR 0xB6]"

definition unit_minute :: string where
  "unit_minute = [CHR 0xE5, CHR 0x88, CHR 0x86]"

definition unit_second :: string where
  "unit_second = [CHR 0xE7, CHR 0xA7, CHR 0x92]"

text \<open>
  \<open>parts\<close> is the list the source appends to; \<open>//\<close> and \<open>%\<close> on Python integers with a
  positive divisor are \<open>div\<close> and \<open>mod\<close> on \<open>int\<close>. The source has no raising path: the
  negative case returns the literal \<open>N/A\<close>.
\<close>

definition format_duration :: "int \<Rightarrow> string" where
  "format_duration seconds =
     (if seconds < 0 then ''N/A''
      else
        let days = seconds div 86400;
            hours = (seconds mod 86400) div 3600;
            minutes = (seconds mod 3600) div 60;
            secs = seconds mod 60;
            parts0 = [];
            parts1 = (if days > 0 then parts0 @ [str_int days @ unit_day] else parts0);
            parts2 = (if hours > 0 then parts1 @ [str_int hours @ unit_hour] else parts1);
            parts3 = (if minutes > 0 then parts2 @ [str_int minutes @ unit_minute] else parts2);
            parts4 = (if secs > 0 \<or> parts3 = [] then parts3 @ [str_int secs @ unit_second]
                      else parts3)
        in concat (take 3 parts4))"

text \<open>
  The specification's reading of the same function: the four unit values of a duration in
  the order days, hours, minutes, seconds, each paired with its suffix; a component is a
  value followed by its suffix.
\<close>

definition duration_units :: "int \<Rightarrow> (int \<times> string) list" where
  "duration_units d =
     [(d div 86400, unit_day), ((d mod 86400) div 3600, unit_hour),
      ((d mod 3600) div 60, unit_minute), (d mod 60, unit_second)]"

definition unit_component :: "int \<times> string \<Rightarrow> string" where
  "unit_component c = str_int (fst c) @ snd c"

definition nonzero_unit :: "int \<times> string \<Rightarrow> bool" where
  "nonzero_unit c = (fst c \<noteq> 0)"

subsection \<open>image\_generator.py: the generator object and its colour threshold\<close>

type_synonym rgb = "nat \<times> nat \<times> nat"

text \<open>
  The fields \<open>__init__\<close> sets, fonts apart (they are objects of the drawing library and
  no operation modelled here reads them).
\<close>

record generator =
  width :: int
  height :: int
  bg_color :: rgb
  card_bg :: rgb
  title_color :: rgb
  text_color :: rgb
  value_color :: rgb
  bar_bg_color :: rgb
  brand_color :: rgb
  success_color :: rgb
  warning_color :: rgb
  danger_color :: rgb
  cyan_color :: rgb
  purple_color :: rgb

definition MonitorImageGenerator :: generator where
  "MonitorImageGenerator =
     \<lparr> width = 1100, height = 920,
       bg_color = (22, 22, 28), card_bg = (32, 32, 40),
       title_color = (255, 255, 255), text_color = (170, 170, 180),
       value_color = (235, 235, 245), bar_bg_color = (50, 50, 58),
       brand_color = (99, 132, 255), success_color = (72, 199, 142),
       warning_color = (255, 193, 69), danger_color = (255, 99, 99),
       cyan_color = (69, 199, 227), purple_color = (167, 139, 250) \<rparr>"

definition get_usage_color :: "generator \<Rightarrow> real \<Rightarrow> rgb" where
  "get_usage_color self percent =
     (if percent < 60 then success_color self
      else if percent < 85 then warning_color self
      else danger_color self)"

subsection \<open>plugin.py: the memory history buffer\<close>

text \<open>
  \<open>MEMORY_HISTORY = deque(maxlen=60)\<close>. The deque is the standard library's: \<open>append\<close>
  adds the value at the right end and, when the length then exceeds \<open>maxlen\<close>, removes
  one element from the left end. The buffer is a list, oldest sample first.
\<close>

definition deque_append :: "nat \<Rightarrow> 'a list \<Rightarrow> 'a \<Rightarrow> 'a list" where
  "deque_append maxlen dq x =
     (let dq' = dq @ [x] in if length dq' > maxlen then tl dq' else dq')"

definition MEMORY_HISTORY_maxlen :: nat where
  "MEMORY_HISTORY_maxlen = 60"

text \<open>
  One sampling attempt, as both the recorder and the mem command make it:
  \<open>rss / 1024 / 1024\<close> of the process is appended; \<open>None\<close> stands for the system query
  raising, which the surrounding \<open>try\<close> swallows, leaving the buffer as it is.
\<close>

definition memory_mb :: "nat \<Rightarrow> real" where
  "memory_mb rss = real rss / 1024 / 1024"

definition sample_memory :: "nat option \<Rightarrow> real list \<Rightarrow> real list" where
  "sample_memory rss history =
     (case rss of
        Some r \<Rightarrow> deque_append MEMORY_HISTORY_maxlen history (memory_mb r)
      | None \<Rightarrow> history)"

text \<open>
  \<open>_memory_recorder\<close> loops for ever, one sampling attempt a minute. The buffer after
  the first iterations of the loop is computed from the outcomes of their queries.
\<close>

fun memory_recorder :: "nat option list \<Rightarrow> real list \<Rightarrow> real list" where
  "memory_recorder [] history = history"
| "memory_recorder (rss # later) history = memory_recorder later (sample_memory rss history)"

subsection \<open>plugin.py: MemoryAnalysisCommand.execute\<close>

text \<open>
  The trend texts of the source, an arrow or a cycle emoji followed by Chinese words:
  stable (the initial value of \<open>trend_str\<close>), marked increase (possible leak), slow
  increase, marked decrease, slow decrease, and collecting data.
\<close>

definition trend_stable :: string where
  "trend_stable =
     [CHR 0xE2, CHR 0x9E, CHR 0xA1, CHR 0xEF, CHR 0xB8, CHR 0x8F]
     @ '' ''
     @ [CHR 0xE7, CHR 0x9B, CHR 0xB8, CHR 0xE5, CHR 0xAF, CHR 0xB9, CHR 0xE5, CHR 0xB9, CHR 0xB3, CHR 0xE7, CHR 0xA8, CHR 0xB3]"

definition trend_marked_increase :: string where
  "trend_marked_increase =
     [CHR 0xE2, CHR 0x86, CHR 0x97, CHR 0xEF, CHR 0xB8, CHR 0x8F]
     @ '' ''
     @ [CHR 0xE6, CHR 0x98, CHR 0x8E, CHR 0xE6, CHR 0x98, CHR 0xBE, CHR 0xE4, CHR 0xB8, CHR 0x8A, CHR 0xE5, CHR 0x8D, CHR 0x87]
     @ '' (''
     @ [CHR 0xE5, CHR 0x8F, CHR 0xAF, CHR 0xE8, CHR 0x83, CHR 0xBD, CHR 0xE5, CHR 0xAD, CHR 0x98, CHR 0xE5, CHR 0x9C, CHR 0xA8, CHR 0xE6, CHR 0xB3, CHR 0x84, CHR 0xE6, CHR 0xBC, CHR 0x8F]
     @ '')''"

definition trend_slow_increase :: string where
  "trend_slow_increase =
     [CHR 0xE2, CHR 0x86, CHR 0x97, CHR 0xEF, CHR 0xB8, CHR 0x8F]
     @ '' ''
     @ [CHR 0xE7, CHR 0xBC, CHR 0x93, CHR 0xE6, CHR 0x85, CHR 0xA2, CHR 0xE4, CHR 0xB8, CHR 0x8A, CHR 0xE5, CHR 0x8D, CHR 0x87]"

definition trend_marked_decrease :: string where
  "trend_marked_decrease =
     [CHR 0xE2, CHR 0x86, CHR 0x98, CHR 0xEF, CHR 0xB8, CHR 0x8F]
     @ '' ''
     @ [CHR 0xE6, CHR 0x98, CHR 0x8E, CHR 0xE6, CHR 0x98, CHR 0xBE, CHR 0xE4, CHR 0xB8, CHR 0x8B, CHR 0xE9, CHR 0x99, CHR 0x8D]"

definition trend_slow_decrease :: string where
  "trend_slow_decrease =
     [CHR 0xE2, CHR 0x86, CHR 0x98, CHR 0xEF, CHR 0xB8, CHR 0x8F]
     @ '' ''
     @ [CHR 0xE7, CHR 0xBC, CHR 0x93, CHR 0xE6, CHR 0x85, CHR 0xA2, CHR 0xE4, CHR 0xB8, CHR 0x8B, CHR 0xE9, CHR 0x99, CHR 0x8D]"

definition trend_collecting :: string where
  "trend_collecting =
     [CHR 0xF0, CHR 0x9F, CHR 0x94, CHR 0x84]
     @ '' ''
     @ [CHR 0xE6, CHR 0x95, CHR 0xB0, CHR 0xE6, CHR 0x8D, CHR 0xAE, CHR 0xE6, CHR 0x94, CHR 0xB6, CHR 0xE9, CHR 0x9B, CHR 0x86, CHR 0xE4, CHR 0xB8, CHR 0xAD]
     @ ''...''"

text \<open>Lines 258 to 275: the classification of the buffer.\<close>

definition mem_trend :: "real list \<Rightarrow> string" where
  "mem_trend history =
     (let trend_str = trend_stable in
      if length history \<ge> 5 then
        let history_list = history;
            recent = drop (length history_list - 5) history_list;
            old = take 5 history_list;
            recent_avg = sum_list recent / real (length recent);
            old_avg = sum_list old / real (length old);
            diff = recent_avg - old_avg
        in if diff > 10 then trend_marked_increase
           else if diff > 2 then trend_slow_increase
           else if diff < - 10 then trend_marked_decrease
           else if diff < - 2 then trend_slow_decrease
           else trend_str
      else trend_collecting)"

text \<open>
  Python's \<open>max\<close> and \<open>min\<close> over a non-empty sequence keep the first greatest and the
  first least element. On an empty sequence they raise, as \<open>MEMORY_HISTORY[-1]\<close> does;
  the command reaches them only behind its emptiness guard, so the empty case has no
  equation here.
\<close>

fun py_max :: "real list \<Rightarrow> real" where
  "py_max (x # xs) = foldl (\<lambda>m item. if item > m then item else m) x xs"

fun py_min :: "real list \<Rightarrow> real" where
  "py_min (x # xs) = foldl (\<lambda>m item. if item < m then item else m) x xs"

record mem_stats =
  current :: real
  avg :: real
  max_mem :: real
  min_mem :: real
  trend_str :: string

text \<open>Lines 252 to 275: the local variables the report is built from.\<close>

definition mem_statistics :: "real list \<Rightarrow> mem_stats" where
  "mem_statistics history =
     \<lparr> current = last history,
       avg = sum_list history / real (length history),
       max_mem = py_max history,
       min_mem = py_min history,
       trend_str = mem_trend history \<rparr>"

text \<open>
  What a command hands to the host: texts and images sent through the messaging API, in
  order, and the triple it returns. The host's \<open>send_text\<close> and \<open>send_image\<close> are
  taken to deliver (they are the host framework's, outside this plugin).
\<close>

datatype message = SendText string | SendImage string

type_synonym command_result = "bool \<times> string \<times> bool"

text \<open>
  \<open>str.strip()\<close> removes leading and trailing whitespace; on the byte strings used here
  the whitespace characters are the ASCII ones.
\<close>

definition py_isspace :: "char \<Rightarrow> bool" where
  "py_isspace c \<longleftrightarrow>
     c \<in> set [CHR 0x09, CHR 0x0A, CHR 0x0B, CHR 0x0C, CHR 0x0D,
               CHR 0x1C, CHR 0x1D, CHR 0x1E, CHR 0x1F, CHR 0x20]"

definition py_strip :: "string \<Rightarrow> string" where
  "py_strip s = rev (dropWhile py_isspace (rev (dropWhile py_isspace s)))"

text \<open>
  The report template, cut at its placeholders: header with the number of samples,
  current, average and peak value, trend text, footer. \<open>{x:.1f}\<close> is Python's float
  formatting with one decimal; it is the parameter \<open>fmt1\<close>. The report shows no line for
  \<open>min_mem\<close>.
\<close>

definition mem_report_0 :: string where
  "mem_report_0 =
     [CHR 0x0A, CHR 0xF0, CHR 0x9F, CHR 0xA7, CHR 0xA0]
     @ '' **''
     @ [CHR 0xE5, CHR 0x86, CHR 0x85, CHR 0xE5, CHR 0xAD, CHR 0x98, CHR 0xE5, CHR 0x88, CHR 0x86, CHR 0xE6, CHR 0x9E, CHR 0x90, CHR 0xE6, CHR 0x8A, CHR 0xA5, CHR 0xE5, CHR 0x91, CHR 0x8A]
     @ ''** (''
     @ [CHR 0xE8, CHR 0xBF, CHR 0x91]
     @ '' ''"

definition mem_report_1 :: string where
  "mem_report_1 =
     '' ''
     @ [CHR 0xE5, CHR 0x88, CHR 0x86, CHR 0xE9, CHR 0x92, CHR 0x9F]
     @ '')''
     @ [CHR 0x0A]
     @ ''------------------''
     @ [CHR 0x0A, CHR 0xE5, CHR 0xBD, CHR 0x93, CHR 0xE5, CHR 0x89, CHR 0x8D]
     @ '': ''"

definition mem_report_2 :: string where
  "mem_report_2 =
     '' MB''
     @ [CHR 0x0A, CHR 0xE5, CHR 0xB9, CHR 0xB3, CHR 0xE5, CHR 0x9D, CHR 0x87]
     @ '': ''"

definition mem_report_3 :: string where
  "mem_report_3 =
     '' MB''
     @ [CHR 0x0A, CHR 0xE5, CHR 0xB3, CHR 0xB0, CHR 0xE5, CHR 0x80, CHR 0xBC]
     @ '': ''"

definition mem_report_4 :: string where
  "mem_report_4 =
     '' MB''
     @ [CHR 0x0A, CHR 0xE8, CHR 0xB6, CHR 0x8B, CHR 0xE5, CHR 0x8A, CHR 0xBF]
     @ '': ''"

definition mem_report_5 :: string where
  "mem_report_5 =
     [CHR 0x0A]
     @ ''------------------''
     @ [CHR 0x0A]
     @ ''* ''
     @ [CHR 0xE6, CHR 0x95, CHR 0xB0, CHR 0xE6, CHR 0x8D, CHR 0xAE, CHR 0xE6, CHR 0xAF, CHR 0x8F, CHR 0xE5, CHR 0x88, CHR 0x86, CHR 0xE9, CHR 0x92, CHR 0x9F, CHR 0xE8, CHR 0x87, CHR 0xAA, CHR 0xE5, CHR 0x8A, CHR 0xA8, CHR 0xE9, CHR 0x87, CHR 0x87, CHR 0xE9, CHR 0x9B, CHR 0x86, CHR 0xE4, CHR 0xB8, CHR 0x80, CHR 0xE6, CHR 0xAC, CHR 0xA1, CHR 0x0A]"

definition msg_no_memory_data :: string where
  "msg_no_memory_data =
     [CHR 0xE2, CHR 0x9D, CHR 0x8C]
     @ '' ''
     @ [CHR 0xE6, CHR 0x9A, CHR 0x82, CHR 0xE6, CHR 0x97, CHR 0xA0, CHR 0xE5, CHR 0x86, CHR 0x85, CHR 0xE5, CHR 0xAD, CHR 0x98, CHR 0xE6, CHR 0x95, CHR 0xB0, CHR 0xE6, CHR 0x8D, CHR 0xAE]"

definition msg_memory_sent :: string where
  "msg_memory_sent =
     [CHR 0xE5, CHR 0x86, CHR 0x85, CHR 0xE5, CHR 0xAD, CHR 0x98, CHR 0xE5, CHR 0x88, CHR 0x86, CHR 0xE6, CHR 0x9E, CHR 0x90, CHR 0xE5, CHR 0xB7, CHR 0xB2, CHR 0xE5, CHR 0x8F, CHR 0x91, CHR 0xE9, CHR 0x80, CHR 0x81]"

definition mem_report :: "(real \<Rightarrow> string) \<Rightarrow> nat \<Rightarrow> mem_stats \<Rightarrow> string" where
  "mem_report fmt1 n st =
     mem_report_0 @ str_nat n @ mem_report_1 @ fmt1 (current st)
     @ mem_report_2 @ fmt1 (avg st) @ mem_report_3 @ fmt1 (max_mem st)
     @ mem_report_4 @ trend_str st @ mem_report_5"

text \<open>
  Lines 240 to 247 are \<open>mem_ensure_history\<close>: one lazy sampling attempt, made only when
  the buffer is empty. The command takes the buffer before and the outcome of that query,
  and gives the buffer after, the messages sent, the
  returned triple.
\<close>

definition mem_ensure_history :: "nat option \<Rightarrow> real list \<Rightarrow> real list" where
  "mem_ensure_history rss history0 =
     (if history0 = [] then sample_memory rss history0 else history0)"

definition mem_execute ::
  "(real \<Rightarrow> string) \<Rightarrow> nat option \<Rightarrow> real list
     \<Rightarrow> real list \<times> message list \<times> command_result" where
  "mem_execute fmt1 rss history0 =
     (let history = mem_ensure_history rss history0
      in if history = [] then (history, [], (True, msg_no_memory_data, False))
         else
           let st = mem_statistics history;
               msg = mem_report fmt1 (length history) st
           in (history, [SendText (py_strip msg)], (True, msg_memory_sent, True)))"

text \<open>
  The buffer is shared by the recorder and the command; every change of it is one of
  these two events.
\<close>

datatype history_event = RecorderTick "nat option" | MemCommand "nat option"

fun history_after :: "history_event list \<Rightarrow> real list \<Rightarrow> real list" where
  "history_after [] history = history"
| "history_after (RecorderTick rss # es) history =
     history_after es (sample_memory rss history)"
| "history_after (MemCommand rss # es) history =
     history_after es (mem_ensure_history rss history)"

text \<open>
  For the statement of the buffer's content: the values of the successful queries of a
  run of the recorder, and the newest \<open>n\<close> elements of a list.
\<close>

fun sampled :: "nat option list \<Rightarrow> real list" where
  "sampled [] = []"
| "sampled (None # rs) = sampled rs"
| "sampled (Some r # rs) = memory_mb r # sampled rs"

definition newest :: "nat \<Rightarrow> 'a list \<Rightarrow> 'a list" where
  "newest n xs = drop (length xs - n) xs"

text \<open>
  For the statement of the trend: the arithmetic mean, the most recent five and the
  earliest five samples of a buffer, and the difference of their means.
\<close>

definition mean :: "real list \<Rightarrow> real" where
  "mean xs = sum_list xs / real (length xs)"

definition recent5 :: "real list \<Rightarrow> real list" where
  "recent5 h = drop (length h - 5) h"

definition earliest5 :: "real list \<Rightarrow> real list" where
  "earliest5 h = take 5 h"

definition mean_diff :: "real list \<Rightarrow> real" where
  "mean_diff h = mean (recent5 h) - mean (earliest5 h)"

text \<open>Two buffers of ten samples: five at 135 then five at 150, five at 140 then five at 160.\<close>

definition buffer_135_150 :: "real list" where
  "buffer_135_150 = [135, 135, 135, 135, 135, 150, 150, 150, 150, 150]"

definition buffer_140_160 :: "real list" where
  "buffer_140_160 = [140, 140, 140, 140, 140, 160, 160, 160, 160, 160]"

subsection \<open>plugin.py: get\_disk\_info\<close>

text \<open>
  What the system-metrics library reports: a mounted partition, and the usage of a mount
  point (sizes in bytes). \<open>disk_usage\<close> may raise for a mount point; so may the
  enumeration of the partitions itself. Both are \<open>None\<close> in that case.
\<close>

record partition =
  device :: string
  mountpoint :: string
  fstype :: string
  opts :: string

record disk_usage =
  du_total :: nat
  du_used :: nat
  du_free :: nat
  du_percent :: real

text \<open>The dictionary \<open>get_disk_info\<close> builds for a partition, by its keys.\<close>

record disk_entry =
  entry_mountpoint :: string
  entry_percent :: real
  total_gb :: real
  used_gb :: real
  free_gb :: real

text \<open>
  \<open>str.lower()\<close> on the bytes of a string: the ASCII capitals are mapped to their small
  letters. (No character outside ASCII is lowered to one of the letters of \<open>cdrom\<close>, so
  the test below is the source's.) \<open>'cdrom' in s\<close> is the substring test.
\<close>

definition py_lower_char :: "char \<Rightarrow> char" where
  "py_lower_char c =
     (case map_of (zip ''ABCDEFGHIJKLMNOPQRSTUVWXYZ'' ''abcdefghijklmnopqrstuvwxyz'') c of
        Some l \<Rightarrow> l
      | None \<Rightarrow> c)"

definition py_lower :: "string \<Rightarrow> string" where
  "py_lower s = map py_lower_char s"

definition disk_entry_of :: "partition \<Rightarrow> disk_usage \<Rightarrow> disk_entry" where
  "disk_entry_of part usage =
     \<lparr> entry_mountpoint = mountpoint part,
       entry_percent = du_percent usage,
       total_gb = real (du_total usage) / (1024 ^ 3),
       used_gb = real (du_used usage) / (1024 ^ 3),
       free_gb = real (du_free usage) / (1024 ^ 3) \<rparr>"

text \<open>
  The loop over the partitions, \<open>disks\<close> being the list appended to. The inner
  \<open>try\<close> turns a raising usage query into \<open>pass\<close>: the loop goes on with the next
  partition.
\<close>

fun disk_loop ::
  "(string \<Rightarrow> disk_usage option) \<Rightarrow> partition list \<Rightarrow> disk_entry list \<Rightarrow> disk_entry list"
where
  "disk_loop query [] disks = disks"
| "disk_loop query (part # rest) disks =
     (if sublist ''cdrom'' (py_lower (opts part)) \<or> fstype part = []
      then disk_loop query rest disks
      else
        case query (mountpoint part) of
          None \<Rightarrow> disk_loop query rest disks
        | Some usage \<Rightarrow> disk_loop query rest (disks @ [disk_entry_of part usage]))"

definition get_disk_info ::
  "partition list option \<Rightarrow> (string \<Rightarrow> disk_usage option) \<Rightarrow> disk_entry list" where
  "get_disk_info disk_partitions query =
     (case disk_partitions of
        None \<Rightarrow> []
      | Some parts \<Rightarrow> disk_loop query parts [])"

text \<open>
  For the statement of the result: a partition is optical when its mount options carry
  the cdrom marker, eligible when it is not optical and has a file-system type; what one
  partition contributes to the result is its entry, or nothing.
\<close>

definition optical :: "partition \<Rightarrow> bool" where
  "optical p = sublist ''cdrom'' (py_lower (opts p))"

definition eligible :: "partition \<Rightarrow> bool" where
  "eligible p \<longleftrightarrow> \<not> optical p \<and> fstype p \<noteq> []"

definition contribution ::
  "(string \<Rightarrow> disk_usage option) \<Rightarrow> partition \<Rightarrow> disk_entry list" where
  "contribution query p =
     (if eligible p
      then (case query (mountpoint p) of None \<Rightarrow> [] | Some u \<Rightarrow> [disk_entry_of p u])
      else [])"

subsection \<open>image\_generator.py: \_draw\_disk\_info\<close>

text \<open>
  The calls a drawing routine makes, in order: a text at a position, or one mini progress
  bar (label, percentage, position, width, detail text). \<open>{x:.0f}\<close> is Python's float
  formatting without decimals, the parameter \<open>fmt0\<close>. The key \<open>disks\<close> of the data may be
  absent, which \<open>data.get('disks', [])\<close> reads as the empty list. The placeholder text
  says that no disk information is available.
\<close>

datatype draw_op =
  DrawText string int int
| MiniProgress string real int int int string

definition text_no_disk_info :: string where
  "text_no_disk_info =
     [CHR 0xE6, CHR 0x97, CHR 0xA0, CHR 0xE5, CHR 0x8F, CHR 0xAF, CHR 0xE7, CHR 0x94, CHR 0xA8, CHR 0xE7, CHR 0xA3, CHR 0x81, CHR 0xE7, CHR 0x9B, CHR 0x98, CHR 0xE4, CHR 0xBF, CHR 0xA1, CHR 0xE6, CHR 0x81, CHR 0xAF]"

definition draw_disk_info ::
  "(real \<Rightarrow> string) \<Rightarrow> int \<Rightarrow> int \<Rightarrow> int \<Rightarrow> disk_entry list option \<Rightarrow> draw_op list" where
  "draw_disk_info fmt0 x y w data_disks =
     (let disks = (case data_disks of None \<Rightarrow> [] | Some ds \<Rightarrow> ds)
      in if disks = [] then [DrawText text_no_disk_info x y]
         else map (\<lambda>(i, disk).
                let mountpoint = filter (\<lambda>c. c \<noteq> CHR 0x5C) (entry_mountpoint disk);
                    percent = entry_percent disk;
                    used = used_gb disk;
                    total = total_gb disk;
                    label = mountpoint;
                    detail = fmt0 used @ ''G / '' @ fmt0 total @ ''G''
                in MiniProgress label percent x (y + int i * 32) (w - 15) detail)
              (enumerate 0 (take 5 disks)))"

text \<open>
  A small system for evaluation: a root partition whose usage query succeeds, an optical
  drive, a mount without file-system type, and a partition whose usage query raises.
\<close>

definition part_root :: partition where
  "part_root = \<lparr> device = ''/dev/sda1'', mountpoint = ''/'', fstype = ''ext4'', opts = ''rw'' \<rparr>"

definition part_cdrom :: partition where
  "part_cdrom =
     \<lparr> device = ''/dev/sr0'', mountpoint = ''/media/cd'', fstype = ''iso9660'',
       opts = ''ro,CDROM'' \<rparr>"

definition part_nofs :: partition where
  "part_nofs = \<lparr> device = ''none'', mountpoint = ''/virt'', fstype = [], opts = ''rw'' \<rparr>"

definition part_failing :: partition where
  "part_failing =
     \<lparr> device = ''/dev/sdb1'', mountpoint = ''/mnt/x'', fstype = ''ext4'', opts = ''rw'' \<rparr>"

definition usage_root :: disk_usage where
  "usage_root =
     \<lparr> du_total = 2 * 1024 ^ 3, du_used = 1024 ^ 3, du_free = 1024 ^ 3, du_percent = 50 \<rparr>"

definition query_root_only :: "string \<Rightarrow> disk_usage option" where
  "query_root_only m = (if m = ''/'' then Some usage_root else None)"

definition entry_root :: disk_entry where
  "entry_root =
     \<lparr> entry_mountpoint = ''/'', entry_percent = 50, total_gb = 2, used_gb = 1, free_gb = 1 \<rparr>"

subsection \<open>The data handed to the renderer\<close>

text \<open>
  The dictionary \<open>data\<close> that \<open>StatusCommand.execute\<close> fills, by its keys. Strings are
  already rendered texts; \<open>bot_pid\<close> is the process id, or \<open>None\<close> for the default
  \<open>N/A\<close>; \<open>snapshot_disks\<close> is the key \<open>disks\<close>, \<open>None\<close> for a dictionary without
  it, which the renderer reads with a default.
\<close>

record snapshot =
  os_type :: string
  os_version :: string
  os_full_version :: string
  python_version :: string
  boot_time :: string
  cpu_percent :: real
  ram_percent :: real
  ram_used_gb :: real
  ram_total_gb :: real
  snapshot_disks :: "disk_entry list option"
  bot_pid :: "int option"
  bot_memory_mb :: real
  bot_threads :: int
  bot_uptime :: string
  bot_status :: string
  bot_qq :: string
  plugin_count :: nat
  enabled_plugin_count :: nat

subsection \<open>image\_generator.py: generate\<close>

text \<open>
  The seven cards, named for their titles, and the rectangle \<open>_draw_card\<close> draws for
  one: \<open>[x, y, x + width, y + height]\<close>. \<open>_draw_card\<close> hands its content routine the
  position \<open>(x + 18, y + 42)\<close> and the width \<open>width - 36\<close> and returns \<open>y + height\<close>.
\<close>

datatype card =
  SystemInfo | ResourceUsage | MonitorStats | MessageStats | BotStatus | DiskSpace | PluginInfo

record card_box =
  box_card :: card
  box_x :: int
  box_y :: int
  box_width :: int
  box_height :: int

definition draw_card :: "card \<Rightarrow> int \<Rightarrow> int \<Rightarrow> int \<Rightarrow> int \<Rightarrow> card_box \<times> int" where
  "draw_card title x y w h =
     (\<lparr> box_card = title, box_x = x, box_y = y, box_width = w, box_height = h \<rparr>, y + h)"

text \<open>
  What \<open>generate\<close> decides before the drawing library encodes the image: the size of the
  canvas, the rectangles of the cards in the order they are drawn, and the rows of the
  disk card. \<open>generate\<close> also stores the height in the generator object.
\<close>

record image_plan =
  img_width :: int
  img_height :: int
  boxes :: "card_box list"
  disk_rows :: "draw_op list"

definition generate ::
  "(real \<Rightarrow> string) \<Rightarrow> generator \<Rightarrow> snapshot \<Rightarrow> generator \<times> image_plan" where
  "generate fmt0 self0 data =
     (let disk_count = int (length (case snapshot_disks data of None \<Rightarrow> [] | Some ds \<Rightarrow> ds));
          disk_card_height = max (35 * min disk_count 5 + 55) 90;
          self = self0 \<lparr> height := 920 + max 0 ((disk_count - 3) * 35) \<rparr>;
          y_pos = 80;
          card_margin = 25;
          card_width = (width self - card_margin * 3) div 2;
          left_x = card_margin;
          (c1, y_pos_left) = draw_card SystemInfo left_x y_pos card_width 180;
          y_pos_left = y_pos_left + 12;
          (c2, y_pos_left) = draw_card ResourceUsage left_x y_pos_left card_width 165;
          y_pos_left = y_pos_left + 12;
          (c3, y_pos_left) = draw_card MonitorStats left_x y_pos_left card_width 195;
          y_pos_left = y_pos_left + 12;
          (c4, y_pos_left) = draw_card MessageStats left_x y_pos_left card_width 105;
          right_x = card_margin * 2 + card_width;
          y_pos_right = y_pos;
          (c5, y_pos_right) = draw_card BotStatus right_x y_pos_right card_width 195;
          y_pos_right = y_pos_right + 12;
          rows = draw_disk_info fmt0 (right_x + 18) (y_pos_right + 42) (card_width - 36)
                   (snapshot_disks data);
          (c6, y_pos_right) = draw_card DiskSpace right_x y_pos_right card_width
                                disk_card_height;
          y_pos_right = y_pos_right + 12;
          (c7, y_pos_right) = draw_card PluginInfo right_x y_pos_right card_width 105
      in (self,
          \<lparr> img_width = width self, img_height = height self,
            boxes = [c1, c2, c3, c4, c5, c6, c7], disk_rows = rows \<rparr>))"

text \<open>A snapshot for evaluation, with seven disks.\<close>

definition snapshot_7_disks :: snapshot where
  "snapshot_7_disks =
     \<lparr> os_type = ''Linux'', os_version = ''6.1'', os_full_version = ''Linux-6.1'',
       python_version = ''3.11.4'', boot_time = format_duration 90061,
       cpu_percent = 12, ram_percent = 61, ram_used_gb = 5, ram_total_gb = 8,
       snapshot_disks = Some (replicate 7 entry_root), bot_pid = Some 4242, bot_memory_mb = 150,
       bot_threads = 9, bot_uptime = format_duration 3605, bot_status = ''running'',
       bot_qq = ''10001'', plugin_count = 12, enabled_plugin_count = 10 \<rparr>"

subsection \<open>plugin.py: what StatusCommand.execute reads\<close>

text \<open>
  The readings of one invocation: platform strings (\<open>None\<close> where the query raises),
  interpreter version, clock and boot time, processor and memory readings, the partitions
  and their usage, the bot's own process (\<open>None\<close> when its lookup raises), the bot
  identifier of the global configuration as an f-string renders it, and the
  \<open>enable_plugin\<close> flag of every plugin of the registry.
\<close>

record process_info =
  proc_pid :: int
  proc_rss :: nat
  proc_threads :: int
  proc_create_time :: real

record system =
  platform_system :: string
  platform_release :: string
  platform_version :: "string option"
  platform_platform :: "string option"
  version_info :: "nat \<times> nat \<times> nat"
  time_now :: real
  psutil_boot_time :: real
  psutil_cpu_percent :: real
  vm_percent :: real
  vm_used :: nat
  vm_total :: nat
  psutil_partitions :: "partition list option"
  psutil_disk_usage :: "string \<Rightarrow> disk_usage option"
  psutil_process :: "process_info option"
  config_bot_qq_id :: string
  plugins_enabled :: "bool list"

definition get_full_os_version :: "system \<Rightarrow> string" where
  "get_full_os_version sys =
     (if platform_system sys = ''Windows''
      then (case platform_version sys of
              Some version \<Rightarrow> platform_release sys @ '' (Build '' @ version @ '')''
            | None \<Rightarrow> platform_release sys)
      else (case platform_platform sys of
              Some p \<Rightarrow> p
            | None \<Rightarrow> platform_release sys))"

text \<open>The dictionary of \<open>get_bot_process_info\<close>; the empty dictionary is \<open>None\<close>.\<close>

record bot_process_info =
  info_pid :: int
  info_memory_mb :: real
  info_threads :: int
  info_create_time :: real
  info_uptime :: real

definition get_bot_process_info :: "system \<Rightarrow> bot_process_info option" where
  "get_bot_process_info sys =
     (case psutil_process sys of
        None \<Rightarrow> None
      | Some process \<Rightarrow>
          Some \<lparr> info_pid = proc_pid process,
                 info_memory_mb = real (proc_rss process) / 1024 / 1024,
                 info_threads = proc_threads process,
                 info_create_time = proc_create_time process,
                 info_uptime = time_now sys - proc_create_time process \<rparr>)"

text \<open>\<open>int(x)\<close> of a float truncates towards zero.\<close>

definition py_int :: "real \<Rightarrow> int" where
  "py_int x = (if x < 0 then \<lceil>x\<rceil> else \<lfloor>x\<rfloor>)"

text \<open>The status text the command stores: running.\<close>

definition txt_running :: string where
  "txt_running =
     [CHR 0xE8, CHR 0xBF, CHR 0x90, CHR 0xE8, CHR 0xA1, CHR 0x8C, CHR 0xE4, CHR 0xB8, CHR 0xAD]"

text \<open>Lines 129 to 160: the snapshot.\<close>

definition collect_status_data :: "system \<Rightarrow> snapshot" where
  "collect_status_data sys =
     (let bot_info = get_bot_process_info sys;
          plugins = plugins_enabled sys
      in \<lparr> os_type = platform_system sys,
           os_version = platform_release sys,
           os_full_version = get_full_os_version sys,
           python_version =
             (case version_info sys of
                (major, minor, micro) \<Rightarrow>
                  str_nat major @ ''.'' @ str_nat minor @ ''.'' @ str_nat micro),
           boot_time = format_duration (py_int (time_now sys - psutil_boot_time sys)),
           cpu_percent = psutil_cpu_percent sys,
           ram_percent = vm_percent sys,
           ram_used_gb = real (vm_used sys) / (1024 ^ 3),
           ram_total_gb = real (vm_total sys) / (1024 ^ 3),
           snapshot_disks =
             Some (get_disk_info (psutil_partitions sys) (psutil_disk_usage sys)),
           bot_pid = (case bot_info of None \<Rightarrow> None | Some b \<Rightarrow> Some (info_pid b)),
           bot_memory_mb = (case bot_info of None \<Rightarrow> 0 | Some b \<Rightarrow> info_memory_mb b),
           bot_threads = (case bot_info of None \<Rightarrow> 0 | Some b \<Rightarrow> info_threads b),
           bot_uptime =
             format_duration
               (py_int (case bot_info of None \<Rightarrow> 0 | Some b \<Rightarrow> info_uptime b)),
           bot_status = txt_running,
           bot_qq = config_bot_qq_id sys,
           plugin_count = length plugins,
           enabled_plugin_count = length (filter (\<lambda>p. p) plugins) \<rparr>)"

subsection \<open>plugin.py: StatusCommand.execute\<close>

text \<open>
  The text report's template, cut at its placeholders: title and bot identifier, uptime,
  memory, threads, system, Python, CPU, RAM percentage, RAM sizes, plugin counts. A float
  without format specification is rendered as \<open>str\<close> renders it (the parameter
  \<open>fmtr\<close>), \<open>{x:.1f}\<close> by \<open>fmt1\<close>.
\<close>

definition status_text_0 :: string where
  "status_text_0 =
     [CHR 0x0A, CHR 0xF0, CHR 0x9F, CHR 0x93, CHR 0x8A]
     @ '' **Bot ''
     @ [CHR 0xE7, CHR 0x8A, CHR 0xB6, CHR 0xE6, CHR 0x80, CHR 0x81, CHR 0xE6, CHR 0x8A, CHR 0xA5, CHR 0xE5, CHR 0x91, CHR 0x8A]
     @ ''**''
     @ [CHR 0x0A]
     @ ''------------------''
     @ [CHR 0x0A, CHR 0xF0, CHR 0x9F, CHR 0xA4, CHR 0x96]
     @ '' Bot QQ: ''"
definition status_text_1 :: string where
  "status_text_1 =
     [CHR 0x0A, CHR 0xE2, CHR 0x8F, CHR 0xB1, CHR 0xEF, CHR 0xB8, CHR 0x8F]
     @ '' ''
     @ [CHR 0xE8, CHR 0xBF, CHR 0x90, CHR 0xE8, CHR 0xA1, CHR 0x8C, CHR 0xE6, CHR 0x97, CHR 0xB6, CHR 0xE9, CHR 0x97, CHR 0xB4]
     @ '': ''"
definition status_text_2 :: string where
  "status_text_2 =
     [CHR 0x0A, CHR 0xF0, CHR 0x9F, CHR 0xA7, CHR 0xA0]
     @ '' ''
     @ [CHR 0xE5, CHR 0x86, CHR 0x85, CHR 0xE5, CHR 0xAD, CHR 0x98, CHR 0xE5, CHR 0x8D, CHR 0xA0, CHR 0xE7, CHR 0x94, CHR 0xA8]
     @ '': ''"
definition status_text_3 :: string where
  "status_text_3 =
     '' MB''
     @ [CHR 0x0A, CHR 0xF0, CHR 0x9F, CHR 0xA7, CHR 0xB5]
     @ '' ''
     @ [CHR 0xE7, CHR 0xBA, CHR 0xBF, CHR 0xE7, CHR 0xA8, CHR 0x8B, CHR 0xE6, CHR 0x95, CHR 0xB0, CHR 0xE9, CHR 0x87, CHR 0x8F]
     @ '': ''"
definition status_text_4 :: string where
  "status_text_4 =
     [CHR 0x0A]
     @ ''------------------''
     @ [CHR 0x0A, CHR 0xF0, CHR 0x9F, CHR 0x92, CHR 0xBB]
     @ '' ''
     @ [CHR 0xE7, CHR 0xB3, CHR 0xBB, CHR 0xE7, CHR 0xBB, CHR 0x9F]
     @ '': ''"
definition status_text_5 :: string where
  "status_text_5 =
     [CHR 0x0A, CHR 0xF0, CHR 0x9F, CHR 0x90, CHR 0x8D]
     @ '' Python: ''"
definition status_text_6 :: string where
  "status_text_6 =
     [CHR 0x0A, CHR 0xE2, CHR 0x9A, CHR 0x99, CHR 0xEF, CHR 0xB8, CHR 0x8F]
     @ '' CPU: ''"
definition status_text_7 :: string where
  "status_text_7 =
     ''%''
     @ [CHR 0x0A, CHR 0xF0, CHR 0x9F, CHR 0x92, CHR 0xBE]
     @ '' RAM: ''"
definition status_text_8 :: string where
  "status_text_8 =
     ''% (''"
definition status_text_9 :: string where
  "status_text_9 =
     '' GB)''
     @ [CHR 0x0A]
     @ ''------------------''
     @ [CHR 0x0A, CHR 0xF0, CHR 0x9F, CHR 0x93, CHR 0xA6]
     @ '' ''
     @ [CHR 0xE6, CHR 0x8F, CHR 0x92, CHR 0xE4, CHR 0xBB, CHR 0xB6]
     @ '': ''"
definition status_text_10 :: string where
  "status_text_10 =
     '' ''
     @ [CHR 0xE5, CHR 0xB7, CHR 0xB2, CHR 0xE5, CHR 0x90, CHR 0xAF, CHR 0xE7, CHR 0x94, CHR 0xA8, CHR 0x0A]"

definition status_text :: "(real \<Rightarrow> string) \<Rightarrow> (real \<Rightarrow> string) \<Rightarrow> snapshot \<Rightarrow> string" where
  "status_text fmtr fmt1 data =
     status_text_0 @ bot_qq data
     @ status_text_1 @ bot_uptime data
     @ status_text_2 @ fmt1 (bot_memory_mb data)
     @ status_text_3 @ str_int (bot_threads data)
     @ status_text_4 @ os_full_version data
     @ status_text_5 @ python_version data
     @ status_text_6 @ fmtr (cpu_percent data)
     @ status_text_7 @ fmtr (ram_percent data)
     @ status_text_8 @ fmt1 (ram_used_gb data) @ ''/'' @ fmt1 (ram_total_gb data)
     @ status_text_9 @ str_nat (enabled_plugin_count data) @ ''/''
     @ str_nat (plugin_count data) @ status_text_10"

text \<open>
  The notice of a failed image generation, around the text of the exception, and the two
  status messages returned: image sent, information sent.
\<close>

definition image_failed_0 :: string where
  "image_failed_0 =
     [CHR 0xE2, CHR 0x9D, CHR 0x8C]
     @ '' ''
     @ [CHR 0xE5, CHR 0x9B, CHR 0xBE, CHR 0xE7, CHR 0x89, CHR 0x87, CHR 0xE7, CHR 0x94, CHR 0x9F, CHR 0xE6, CHR 0x88, CHR 0x90, CHR 0xE5, CHR 0xA4, CHR 0xB1, CHR 0xE8, CHR 0xB4, CHR 0xA5]
     @ '': ''"
definition image_failed_1 :: string where
  "image_failed_1 =
     [CHR 0x0A, CHR 0xE6, CHR 0xAD, CHR 0xA3, CHR 0xE5, CHR 0x9C, CHR 0xA8, CHR 0xE5, CHR 0x8F, CHR 0x91, CHR 0xE9, CHR 0x80, CHR 0x81, CHR 0xE6, CHR 0x96, CHR 0x87, CHR 0xE5, CHR 0xAD, CHR 0x97, CHR 0xE7, CHR 0x89, CHR 0x88]
     @ ''...''"
definition msg_status_image_sent :: string where
  "msg_status_image_sent =
     [CHR 0xE7, CHR 0x8A, CHR 0xB6, CHR 0xE6, CHR 0x80, CHR 0x81, CHR 0xE5, CHR 0x9B, CHR 0xBE, CHR 0xE7, CHR 0x89, CHR 0x87, CHR 0xE5, CHR 0xB7, CHR 0xB2, CHR 0xE5, CHR 0x8F, CHR 0x91, CHR 0xE9, CHR 0x80, CHR 0x81]"
definition msg_status_text_sent :: string where
  "msg_status_text_sent =
     [CHR 0xE7, CHR 0x8A, CHR 0xB6, CHR 0xE6, CHR 0x80, CHR 0x81, CHR 0xE4, CHR 0xBF, CHR 0xA1, CHR 0xE6, CHR 0x81, CHR 0xAF, CHR 0xE5, CHR 0xB7, CHR 0xB2, CHR 0xE5, CHR 0x8F, CHR 0x91, CHR 0xE9, CHR 0x80, CHR 0x81]"

text \<open>
  The command. \<open>IMAGE_GENERATOR_AVAILABLE\<close> is the module's flag. \<open>render\<close> stands for
  the drawing library at work on the plan of \<open>generate\<close> and for the base64 encoding of
  its PNG bytes: \<open>Inr\<close> the encoded image, \<open>Inl\<close> the text of the exception raised on
  the way, which the \<open>try\<close> of the command catches.
\<close>

definition status_execute ::
  "(real \<Rightarrow> string) \<Rightarrow> (real \<Rightarrow> string) \<Rightarrow> (real \<Rightarrow> string) \<Rightarrow> bool
     \<Rightarrow> (image_plan \<Rightarrow> string + string) \<Rightarrow> system \<Rightarrow> message list \<times> command_result" where
  "status_execute fmtr fmt1 fmt0 IMAGE_GENERATOR_AVAILABLE render sys =
     (let data = collect_status_data sys;
          text_version = (\<lambda>sent.
            let text = status_text fmtr fmt1 data
            in (sent @ [SendText (py_strip text)], (True, msg_status_text_sent, True)))
      in if IMAGE_GENERATOR_AVAILABLE
         then (case render (snd (generate fmt0 MonitorImageGenerator data)) of
                 Inr b64_img \<Rightarrow> ([SendImage b64_img], (True, msg_status_image_sent, True))
               | Inl e \<Rightarrow> text_version [SendText (image_failed_0 @ e @ image_failed_1)])
         else text_version [])"

text \<open>A system for evaluation, and a renderer that raises.\<close>

definition system_example :: system where
  "system_example =
     \<lparr> platform_system = ''Linux'', platform_release = ''6.1.0'',
       platform_version = Some ''#1 SMP'', platform_platform = Some ''Linux-6.1.0-x86_64'',
       version_info = (3, 11, 4), time_now = 100000, psutil_boot_time = 9939,
       psutil_cpu_percent = 12, vm_percent = 61,
       vm_used = 5 * 1024 ^ 3, vm_total = 8 * 1024 ^ 3,
       psutil_partitions = Some [part_cdrom, part_root, part_nofs, part_failing],
       psutil_disk_usage = query_root_only,
       psutil_process =
         Some \<lparr> proc_pid = 4242, proc_rss = 150 * 1024 * 1024, proc_threads = 9,
                proc_create_time = 96395 \<rparr>,
       config_bot_qq_id = ''10001'',
       plugins_enabled = [True, False, True] \<rparr>"

definition render_raises :: "image_plan \<Rightarrow> string + string" where
  "render_raises plan = Inl ''cannot open resource''"


section \<open>Verification\<close>

subsection \<open>Evaluation rules\<close>

lemma str_nat_digit: "n < 10 \<Longrightarrow> str_nat n = [''0123456789'' ! n]"
  by (subst str_nat.simps) simp

lemma str_nat_more:
  "10 \<le> n \<Longrightarrow> str_nat n = str_nat (n div 10) @ [''0123456789'' ! (n mod 10)]"
  by (subst str_nat.simps) simp

lemmas str_eval = str_nat_digit str_nat_more str_int_def

subsection \<open>Duration formatting\<close>

lemma duration_all_zero:
  fixes d :: int
  assumes "0 \<le> d" "d div 86400 = 0" "(d mod 86400) div 3600 = 0"
    "(d mod 3600) div 60 = 0" "d mod 60 = 0"
  shows "d = 0"
  using assms by presburger

lemma parts_filter:
  fixes a b c e :: int
  assumes "0 \<le> a" "0 \<le> b" "0 \<le> c" "0 \<le> e"
    and "\<not> (a = 0 \<and> b = 0 \<and> c = 0 \<and> e = 0)"
  shows "(let parts0 = [];
            parts1 = (if a > 0 then parts0 @ [str_int a @ ua] else parts0);
            parts2 = (if b > 0 then parts1 @ [str_int b @ ub] else parts1);
            parts3 = (if c > 0 then parts2 @ [str_int c @ uc] else parts2);
            parts4 = (if e > 0 \<or> parts3 = [] then parts3 @ [str_int e @ ue]
                      else parts3)
        in concat (take 3 parts4))
     = concat (map unit_component
         (take 3 (filter nonzero_unit [(a, ua), (b, ub), (c, uc), (e, ue)])))"
proof -
  have gt: "(0 < a) = (a \<noteq> 0)" "(0 < b) = (b \<noteq> 0)"
    "(0 < c) = (c \<noteq> 0)" "(0 < e) = (e \<noteq> 0)"
    using assms by auto
  show ?thesis
    unfolding Let_def gt unit_component_def nonzero_unit_def
    using assms(5)
    by (cases "a = 0"; cases "b = 0"; cases "c = 0"; cases "e = 0") simp_all
qed

lemma format_duration_pos:
  assumes pos: "0 < d"
  shows "format_duration d =
      concat (map unit_component (take 3 (filter nonzero_unit (duration_units d))))
    \<and> filter nonzero_unit (duration_units d) \<noteq> []"
proof -
  define a b c e where "a = d div 86400" and "b = (d mod 86400) div 3600"
    and "c = (d mod 3600) div 60" and "e = d mod 60"
  have nn: "0 \<le> a" "0 \<le> b" "0 \<le> c" "0 \<le> e"
    using pos by (simp_all add: a_def b_def c_def e_def pos_imp_zdiv_nonneg_iff)
  have some: "\<not> (a = 0 \<and> b = 0 \<and> c = 0 \<and> e = 0)"
    using duration_all_zero [of d] pos unfolding a_def b_def c_def e_def by auto
  have neg: "(d < 0) = False" using pos by simp
  have "format_duration d = (let parts0 = [];
            parts1 = (if a > 0 then parts0 @ [str_int a @ unit_day] else parts0);
            parts2 = (if b > 0 then parts1 @ [str_int b @ unit_hour] else parts1);
            parts3 = (if c > 0 then parts2 @ [str_int c @ unit_minute] else parts2);
            parts4 = (if e > 0 \<or> parts3 = [] then parts3 @ [str_int e @ unit_second]
                      else parts3)
        in concat (take 3 parts4))"
    unfolding format_duration_def neg if_False a_def b_def c_def e_def
    by (simp only: Let_def)
  also have "\<dots> = concat (map unit_component (take 3 (filter nonzero_unit
      [(a, unit_day), (b, unit_hour), (c, unit_minute), (e, unit_second)])))"
    by (rule parts_filter [OF nn some])
  finally have eq: "format_duration d =
      concat (map unit_component (take 3 (filter nonzero_unit (duration_units d))))"
    unfolding duration_units_def a_def b_def c_def e_def .
  have "filter nonzero_unit
      [(a, unit_day), (b, unit_hour), (c, unit_minute), (e, unit_second)] \<noteq> []"
    using some by (auto simp: nonzero_unit_def)
  then have ne: "filter nonzero_unit (duration_units d) \<noteq> []"
    unfolding duration_units_def a_def b_def c_def e_def .
  from eq ne show ?thesis by simp
qed

text \<open>
  Claim C2. For a positive duration the result is the concatenation, in the order days,
  hours, minutes, seconds, of the components of the first three non-zero units (so of at
  most three); for 0 it is \<open>0\<close> followed by the seconds suffix; for a negative input it
  is the string \<open>N/A\<close> (the function is total: nothing is raised).
\<close>

theorem format_duration_components:
  "(0 < d \<longrightarrow>
      format_duration d =
        concat (map unit_component (take 3 (filter nonzero_unit (duration_units d))))
      \<and> length (take 3 (filter nonzero_unit (duration_units d))) \<le> 3
      \<and> filter nonzero_unit (duration_units d) \<noteq> [])
   \<and> format_duration 0 = ''0'' @ unit_second
   \<and> (d < 0 \<longrightarrow> format_duration d = ''N/A'')"
proof (intro conjI impI)
  assume "0 < d"
  then show "format_duration d =
      concat (map unit_component (take 3 (filter nonzero_unit (duration_units d))))"
    and "filter nonzero_unit (duration_units d) \<noteq> []"
    using format_duration_pos [of d] by simp_all
next
  show "format_duration 0 = ''0'' @ unit_second"
    by (simp add: format_duration_def str_eval)
next
  assume "d < 0"
  then show "format_duration d = ''N/A''"
    by (simp add: format_duration_def)
qed simp

theorem format_duration_components_witness:
  "(0::int) < 90061
   \<and> format_duration 90061 = ''1'' @ unit_day @ ''1'' @ unit_hour @ ''1'' @ unit_minute
   \<and> format_duration 3605 = ''1'' @ unit_hour @ ''5'' @ unit_second
   \<and> (-5::int) < 0 \<and> format_duration (-5) = ''N/A''"
  using format_duration_components [of 90061] format_duration_components [of 3605]
    format_duration_components [of "-5"]
  by (simp add: duration_units_def nonzero_unit_def unit_component_def str_eval)

subsection \<open>Usage colour\<close>

text \<open>
  Claim C3. On a percentage between 0 and 100 the colour is the success colour exactly
  below 60, the warning colour exactly from 60 up to but excluding 85, and the danger
  colour exactly from 85 on; the three colours are distinct, so the three cases do not overlap and leave no gap.
\<close>

theorem get_usage_color_thresholds:
  assumes "0 \<le> p" and "p \<le> 100"
  shows "(get_usage_color MonitorImageGenerator p = success_color MonitorImageGenerator
            \<longleftrightarrow> p < 60)
       \<and> (get_usage_color MonitorImageGenerator p = warning_color MonitorImageGenerator
            \<longleftrightarrow> 60 \<le> p \<and> p < 85)
       \<and> (get_usage_color MonitorImageGenerator p = danger_color MonitorImageGenerator
            \<longleftrightarrow> 85 \<le> p)"
  by (simp add: get_usage_color_def MonitorImageGenerator_def)

theorem get_usage_color_thresholds_witness:
  "(0::real) \<le> 60 \<and> (60::real) \<le> 100
   \<and> get_usage_color MonitorImageGenerator 60 = (255, 193, 69)
   \<and> (0::real) \<le> 85 \<and> (85::real) \<le> 100
   \<and> get_usage_color MonitorImageGenerator 85 = (255, 99, 99)"
  using get_usage_color_thresholds [of 60] get_usage_color_thresholds [of 85]
  by (simp add: MonitorImageGenerator_def)

subsection \<open>The memory history buffer\<close>

lemma deque_append_newest:
  assumes "length dq \<le> n" and "0 < n"
  shows "deque_append n dq x = newest n (dq @ [x])"
proof (cases "length dq = n")
  case True
  then have "dq \<noteq> []" using assms(2) by auto
  then show ?thesis
    using True by (cases dq) (simp_all add: deque_append_def newest_def)
next
  case False
  then show ?thesis
    using assms by (simp add: deque_append_def newest_def)
qed

lemma length_newest: "length (newest n xs) \<le> n"
  by (simp add: newest_def)

lemma newest_short: "length xs \<le> n \<Longrightarrow> newest n xs = xs"
  by (simp add: newest_def)

lemma newest_append: "newest n (newest n xs @ ys) = newest n (xs @ ys)"
proof (cases "length xs \<le> n")
  case True
  then show ?thesis by (simp add: newest_short)
next
  case False
  then have "length xs + length ys - (length xs - n + n) + (length xs - n)
      = length xs + length ys - n"
    by arith
  then show ?thesis using False by (simp add: newest_def)
qed

lemma length_sample_memory:
  "length history \<le> 60 \<Longrightarrow> length (sample_memory rss history) \<le> 60"
  by (cases rss)
     (simp_all add: sample_memory_def MEMORY_HISTORY_maxlen_def deque_append_newest
        length_newest)

lemma length_mem_ensure_history:
  "length history \<le> 60 \<Longrightarrow> length (mem_ensure_history rss history) \<le> 60"
  by (simp add: mem_ensure_history_def length_sample_memory)

lemma length_history_after:
  "length history \<le> 60 \<Longrightarrow> length (history_after events history) \<le> 60"
proof (induction events arbitrary: history)
  case Nil
  then show ?case by simp
next
  case (Cons e es)
  then show ?case
    by (cases e) (simp_all add: length_sample_memory length_mem_ensure_history)
qed

lemma memory_recorder_newest:
  "length history \<le> 60 \<Longrightarrow>
     memory_recorder rs history = newest 60 (history @ sampled rs)"
proof (induction rs arbitrary: history)
  case Nil
  then show ?case by (simp add: newest_short)
next
  case (Cons r rs)
  show ?case
  proof (cases r)
    case None
    then show ?thesis using Cons by (simp add: sample_memory_def)
  next
    case (Some v)
    have step: "sample_memory r history = newest 60 (history @ [memory_mb v])"
      using Some Cons.prems
      by (simp add: sample_memory_def MEMORY_HISTORY_maxlen_def deque_append_newest)
    have "memory_recorder (r # rs) history
        = newest 60 (newest 60 (history @ [memory_mb v]) @ sampled rs)"
      using Cons.IH [of "sample_memory r history"] step
      by (simp add: length_newest)
    also have "\<dots> = newest 60 ((history @ [memory_mb v]) @ sampled rs)"
      by (rule newest_append)
    finally show ?thesis using Some by simp
  qed
qed

text \<open>
  Claim C4. Whatever the recorder and the mem command do to a buffer of at most 60
  samples, it keeps at most 60; a successful sample taken with the buffer at length 60
  removes the oldest element only and puts the new value behind the others, which keep
  their order; below 60 it only adds the value at the end. Started empty, the recorder's
  buffer is the newest 60 of the values sampled so far, oldest first.
\<close>

theorem memory_history_bounded_fifo:
  "(length history \<le> 60 \<longrightarrow> length (history_after events history) \<le> 60)
   \<and> length (history_after events []) \<le> 60
   \<and> (length history = 60 \<longrightarrow>
        sample_memory (Some r) history = tl history @ [memory_mb r]
        \<and> length (sample_memory (Some r) history) = 60)
   \<and> (length history < 60 \<longrightarrow>
        sample_memory (Some r) history = history @ [memory_mb r])
   \<and> memory_recorder rs [] = newest 60 (sampled rs)"
proof (intro conjI impI)
  assume "length history \<le> 60"
  then show "length (history_after events history) \<le> 60"
    by (rule length_history_after)
next
  show "length (history_after events []) \<le> 60"
    by (rule length_history_after) simp
next
  assume full: "length history = 60"
  then have "history \<noteq> []" by auto
  then show "sample_memory (Some r) history = tl history @ [memory_mb r]"
    using full by (simp add: sample_memory_def MEMORY_HISTORY_maxlen_def deque_append_def)
  then show "length (sample_memory (Some r) history) = 60"
    using full by simp
next
  assume "length history < 60"
  then show "sample_memory (Some r) history = history @ [memory_mb r]"
    by (simp add: sample_memory_def MEMORY_HISTORY_maxlen_def deque_append_def)
next
  show "memory_recorder rs [] = newest 60 (sampled rs)"
    using memory_recorder_newest [of "[]" rs] by simp
qed

theorem memory_history_bounded_fifo_witness:
  "length (replicate 60 (1::real)) \<le> 60
   \<and> length (history_after [RecorderTick (Some 2097152), MemCommand None]
        (replicate 60 1)) \<le> 60
   \<and> length (replicate 60 (1::real)) = 60
   \<and> sample_memory (Some 2097152) (replicate 60 1) = replicate 59 1 @ [2]
   \<and> length [1, 2 :: real] < 60
   \<and> sample_memory (Some 3145728) [1, 2] = [1, 2, 3]"
  using memory_history_bounded_fifo
    [of "replicate 60 1" "[RecorderTick (Some 2097152), MemCommand None]" 2097152]
    memory_history_bounded_fifo [of "[1, 2]" "[]" 3145728]
  by (simp add: memory_mb_def mem_ensure_history_def)

subsection \<open>The mem command\<close>





lemma mem_trend_long:
  assumes "5 \<le> length h"
  shows "mem_trend h =
     (if mean_diff h > 10 then trend_marked_increase
      else if mean_diff h > 2 then trend_slow_increase
      else if mean_diff h < - 10 then trend_marked_decrease
      else if mean_diff h < - 2 then trend_slow_decrease
      else trend_stable)"
  using assms
  by (simp add: mem_trend_def Let_def mean_diff_def mean_def recent5_def earliest5_def)




lemma mem_execute_history:
  "fst (mem_execute fmt1 rss history0) = mem_ensure_history rss history0"
  by (simp add: mem_execute_def Let_def)




lemma py_strip_between:
  assumes "s = w1 # a # r" and "t = q @ [b, w2]"
    and "py_isspace w1" and "py_isspace w2"
    and "\<not> py_isspace a" and "\<not> py_isspace b"
  shows "py_strip (s @ m @ t) = tl s @ m @ butlast t"
  using assms by (simp add: py_strip_def butlast_append)


text \<open>
  Claim C5, as the code has it. On a buffer of at least ten samples, a mean of 150 over
  the most recent five and of 135 over the earliest five gives marked increase (possible
  leak), the difference 15 being above 10; so do the means 160 and 140.
\<close>

theorem mem_trend_given_means:
  assumes "10 \<le> length h"
  shows "(mean (recent5 h) = 150 \<and> mean (earliest5 h) = 135
            \<longrightarrow> mem_trend h = trend_marked_increase)
       \<and> (mean (recent5 h) = 160 \<and> mean (earliest5 h) = 140
            \<longrightarrow> mem_trend h = trend_marked_increase)"
proof -
  have "5 \<le> length h" using assms by simp
  then show ?thesis
    by (simp add: mem_trend_long mean_diff_def)
qed

theorem mem_trend_given_means_witness:
  "10 \<le> length buffer_140_160
   \<and> mean (recent5 buffer_140_160) = 160 \<and> mean (earliest5 buffer_140_160) = 140
   \<and> mem_trend buffer_140_160 = trend_marked_increase
   \<and> 10 \<le> length (135 # buffer_135_150)
   \<and> mean (recent5 (135 # buffer_135_150)) = 150
   \<and> mean (earliest5 (135 # buffer_135_150)) = 135
   \<and> mem_trend (135 # buffer_135_150) = trend_marked_increase"
  using mem_trend_given_means [of buffer_140_160]
    mem_trend_given_means [of "135 # buffer_135_150"]
  by (simp add: buffer_140_160_def buffer_135_150_def mean_def recent5_def earliest5_def)

text \<open>
  The claim as the specification words it fails: the buffer of five samples at 135
  followed by five at 150 has the two means of the claim and is not classified as slow
  increase.
\<close>

theorem mem_trend_150_135_counterexample:
  "10 \<le> length buffer_135_150
   \<and> mean (recent5 buffer_135_150) = 150 \<and> mean (earliest5 buffer_135_150) = 135
   \<and> mem_trend buffer_135_150 \<noteq> trend_slow_increase
   \<and> mem_trend buffer_135_150 = trend_marked_increase"
  by (simp add: buffer_135_150_def mean_def recent5_def earliest5_def mem_trend_def
      trend_slow_increase_def trend_marked_increase_def)



text \<open>
  Claim C9. When the buffer is empty and the lazy sampling attempt leaves it empty, the
  command returns success flag true, the no-data text and the flag false, sends nothing
  and leaves the buffer empty.
\<close>

theorem mem_no_data:
  assumes "history0 = []" and "mem_ensure_history rss history0 = []"
  shows "mem_execute fmt1 rss history0 = ([], [], (True, msg_no_memory_data, False))"
  using assms by (simp add: mem_execute_def)

theorem mem_no_data_witness:
  "mem_ensure_history None [] = []
   \<and> mem_execute (\<lambda>x. ''0.0'') None [] = ([], [], (True, msg_no_memory_data, False))"
proof -
  have e: "mem_ensure_history None [] = []"
    by (simp add: mem_ensure_history_def sample_memory_def)
  show ?thesis using e mem_no_data [OF refl e, of "\<lambda>x. ''0.0''"] by simp
qed

subsection \<open>Disk collection\<close>

lemmas lower_eval = py_lower_def py_lower_char_def sublist_Cons_right

lemma disk_loop_contributions:
  "disk_loop query parts disks = disks @ concat (map (contribution query) parts)"
proof (induction parts arbitrary: disks)
  case Nil
  then show ?case by simp
next
  case (Cons p ps)
  then show ?case
    by (simp add: contribution_def eligible_def optical_def split: option.split)
qed

lemma get_disk_info_contributions:
  "get_disk_info (Some parts) query = concat (map (contribution query) parts)"
  by (simp add: get_disk_info_def disk_loop_contributions)

lemma contribution_excluded:
  "fstype p = [] \<or> optical p \<or> query (mountpoint p) = None \<Longrightarrow> contribution query p = []"
  by (auto simp: contribution_def eligible_def)

lemma contribution_included:
  "eligible p \<Longrightarrow> query (mountpoint p) = Some u \<Longrightarrow>
     contribution query p = [disk_entry_of p u]"
  by (simp add: contribution_def)

lemma length_contributions:
  "length (concat (map (contribution query) parts)) \<le> length (filter eligible parts)"
  by (induction parts) (auto simp: contribution_def split: option.split)

lemma draw_disk_info_rows:
  "disks \<noteq> [] \<Longrightarrow>
     draw_disk_info fmt0 x y w (Some disks) =
       map (\<lambda>(i, disk).
              MiniProgress (filter (\<lambda>c. c \<noteq> CHR 0x5C) (entry_mountpoint disk))
                (entry_percent disk) x (y + int i * 32) (w - 15)
                (fmt0 (used_gb disk) @ ''G / '' @ fmt0 (total_gb disk) @ ''G''))
           (enumerate 0 (take 5 disks))"
  by (simp add: draw_disk_info_def Let_def)

text \<open>
  Claim C6. The result holds, in the order of the partitions, one entry for each
  partition that is not optical, has a file-system type and whose usage query succeeds,
  the entry giving mount point, percentage and total, used and free size divided by
  \<open>1024 ^ 3\<close>. A partition without file-system type, an optical one, and one whose usage
  query raises leave the entries of the others as they are; a failing enumeration gives
  the empty list. Nothing is raised. The disk card draws the first five entries, one row
  each.
\<close>

theorem get_disk_info_partial_results:
  "get_disk_info None query = []
   \<and> get_disk_info (Some parts) query = concat (map (contribution query) parts)
   \<and> length (get_disk_info (Some parts) query) \<le> length (filter eligible parts)
   \<and> (fstype p = [] \<or> optical p \<or> query (mountpoint p) = None \<longrightarrow>
        get_disk_info (Some (before @ p # after)) query =
          get_disk_info (Some before) query @ get_disk_info (Some after) query)
   \<and> (eligible p \<and> query (mountpoint p) = Some u \<longrightarrow>
        get_disk_info (Some (before @ p # after)) query =
          get_disk_info (Some before) query
          @ [\<lparr> entry_mountpoint = mountpoint p, entry_percent = du_percent u,
               total_gb = real (du_total u) / (1024 ^ 3),
               used_gb = real (du_used u) / (1024 ^ 3),
               free_gb = real (du_free u) / (1024 ^ 3) \<rparr>]
          @ get_disk_info (Some after) query)
   \<and> (disks \<noteq> [] \<longrightarrow>
        length (draw_disk_info fmt0 x y w (Some disks)) = min 5 (length disks)
        \<and> draw_disk_info fmt0 x y w (Some disks) =
            draw_disk_info fmt0 x y w (Some (take 5 disks)))"
proof (intro conjI impI)
  show "get_disk_info None query = []"
    by (simp add: get_disk_info_def)
  show "get_disk_info (Some parts) query = concat (map (contribution query) parts)"
    by (rule get_disk_info_contributions)
  show "length (get_disk_info (Some parts) query) \<le> length (filter eligible parts)"
    by (simp add: get_disk_info_contributions length_contributions)
next
  assume "fstype p = [] \<or> optical p \<or> query (mountpoint p) = None"
  then show "get_disk_info (Some (before @ p # after)) query =
      get_disk_info (Some before) query @ get_disk_info (Some after) query"
    by (simp add: get_disk_info_contributions contribution_excluded)
next
  assume "eligible p \<and> query (mountpoint p) = Some u"
  then show "get_disk_info (Some (before @ p # after)) query =
      get_disk_info (Some before) query
      @ [\<lparr> entry_mountpoint = mountpoint p, entry_percent = du_percent u,
           total_gb = real (du_total u) / (1024 ^ 3),
           used_gb = real (du_used u) / (1024 ^ 3),
           free_gb = real (du_free u) / (1024 ^ 3) \<rparr>]
      @ get_disk_info (Some after) query"
    by (simp add: get_disk_info_contributions contribution_included disk_entry_of_def)
next
  assume ne: "disks \<noteq> []"
  then show "length (draw_disk_info fmt0 x y w (Some disks)) = min 5 (length disks)"
    by (simp add: draw_disk_info_rows min.commute)
  from ne have "take 5 disks \<noteq> []" by (cases disks) simp_all
  then show "draw_disk_info fmt0 x y w (Some disks) =
      draw_disk_info fmt0 x y w (Some (take 5 disks))"
    using ne by (simp add: draw_disk_info_rows)
qed

theorem get_disk_info_partial_results_witness:
  "optical part_cdrom
   \<and> fstype part_nofs = []
   \<and> query_root_only (mountpoint part_failing) = None
   \<and> eligible part_root \<and> query_root_only (mountpoint part_root) = Some usage_root
   \<and> get_disk_info (Some [part_cdrom, part_root, part_nofs, part_failing]) query_root_only
       = [entry_root]
   \<and> replicate 7 entry_root \<noteq> []
   \<and> length (draw_disk_info (\<lambda>v. ''0'') 0 0 500 (Some (replicate 7 entry_root))) = 5"
proof -
  have facts: "optical part_cdrom" "fstype part_nofs = []"
    "query_root_only (mountpoint part_failing) = None"
    "eligible part_root" "query_root_only (mountpoint part_root) = Some usage_root"
    "\<not> optical part_failing" "fstype part_failing \<noteq> []"
    by (simp_all add: optical_def eligible_def part_cdrom_def part_nofs_def part_failing_def
        part_root_def query_root_only_def lower_eval)
  have ne: "replicate 7 entry_root \<noteq> []" by simp
  have "get_disk_info (Some [part_cdrom, part_root, part_nofs, part_failing]) query_root_only
      = [entry_root]"
    using get_disk_info_partial_results
      [where query = query_root_only
        and parts = "[part_cdrom, part_root, part_nofs, part_failing]"]
      facts
    by (simp add: contribution_def eligible_def entry_root_def disk_entry_of_def
        part_root_def usage_root_def)
  moreover have
    "length (draw_disk_info (\<lambda>v. ''0'') 0 0 500 (Some (replicate 7 entry_root))) = 5"
    using get_disk_info_partial_results
      [where disks = "replicate 7 entry_root" and ?fmt0.0 = "\<lambda>v. ''0''"
        and x = 0 and y = 0 and w = 500,
        THEN conjunct2, THEN conjunct2, THEN conjunct2, THEN conjunct2, THEN conjunct2,
        THEN mp, OF ne, THEN conjunct1]
    by simp
  ultimately show ?thesis using facts ne by simp
qed

subsection \<open>The size of the image\<close>

lemma generate_plan:
  "generate fmt0 MonitorImageGenerator data =
     (let n = int (length (case snapshot_disks data of None \<Rightarrow> [] | Some ds \<Rightarrow> ds));
          h = 920 + max 0 ((n - 3) * 35);
          dh = max (35 * min n 5 + 55) 90
      in (MonitorImageGenerator \<lparr> height := h \<rparr>,
          \<lparr> img_width = 1100, img_height = h,
            boxes =
              [\<lparr> box_card = SystemInfo, box_x = 25, box_y = 80, box_width = 512,
                  box_height = 180 \<rparr>,
               \<lparr> box_card = ResourceUsage, box_x = 25, box_y = 272, box_width = 512,
                  box_height = 165 \<rparr>,
               \<lparr> box_card = MonitorStats, box_x = 25, box_y = 449, box_width = 512,
                  box_height = 195 \<rparr>,
               \<lparr> box_card = MessageStats, box_x = 25, box_y = 656, box_width = 512,
                  box_height = 105 \<rparr>,
               \<lparr> box_card = BotStatus, box_x = 562, box_y = 80, box_width = 512,
                  box_height = 195 \<rparr>,
               \<lparr> box_card = DiskSpace, box_x = 562, box_y = 287, box_width = 512,
                  box_height = dh \<rparr>,
               \<lparr> box_card = PluginInfo, box_x = 562, box_y = 299 + dh, box_width = 512,
                  box_height = 105 \<rparr>],
            disk_rows = draw_disk_info fmt0 580 329 476 (snapshot_disks data) \<rparr>))"
  by (simp add: generate_def draw_card_def MonitorImageGenerator_def Let_def)

text \<open>
  Claim C10. For a snapshot with \<open>n\<close> disk entries, \<open>generate\<close> makes the image 1100
  wide and \<open>920 + max 0 ((n - 3) * 35)\<close> high (and stores that height in the generator),
  counting all \<open>n\<close> entries, while the disk card, the sixth card drawn, is
  \<open>max (35 * min n 5 + 55) 90\<close> high. Beyond five entries each further entry adds 35 to the
  height of the image, the disk card stays 230 high, and five rows are drawn.
\<close>

theorem generate_height_by_disk_count:
  assumes "snapshot_disks data = Some ds" and "n = int (length ds)"
  shows "img_height (snd (generate fmt0 MonitorImageGenerator data))
           = 920 + max 0 ((n - 3) * 35)
       \<and> height (fst (generate fmt0 MonitorImageGenerator data))
           = 920 + max 0 ((n - 3) * 35)
       \<and> img_width (snd (generate fmt0 MonitorImageGenerator data)) = 1100
       \<and> box_card (boxes (snd (generate fmt0 MonitorImageGenerator data)) ! 5) = DiskSpace
       \<and> box_height (boxes (snd (generate fmt0 MonitorImageGenerator data)) ! 5)
           = max (35 * min n 5 + 55) 90
       \<and> (5 < n \<longrightarrow>
            img_height (snd (generate fmt0 MonitorImageGenerator data)) = 990 + 35 * (n - 5)
            \<and> box_height (boxes (snd (generate fmt0 MonitorImageGenerator data)) ! 5) = 230
            \<and> length (disk_rows (snd (generate fmt0 MonitorImageGenerator data))) = 5)"
proof -
  have rows: "5 < n \<Longrightarrow> length (draw_disk_info fmt0 580 329 476 (Some ds)) = 5"
    using assms(2) by (cases "ds = []") (simp_all add: draw_disk_info_rows)
  show ?thesis
    using assms rows by (simp add: generate_plan Let_def)
qed

theorem generate_height_by_disk_count_witness:
  "snapshot_disks snapshot_7_disks = Some (replicate 7 entry_root)
   \<and> (7::int) = int (length (replicate 7 entry_root))
   \<and> img_height (snd (generate (\<lambda>v. ''0'') MonitorImageGenerator snapshot_7_disks)) = 1060
   \<and> img_width (snd (generate (\<lambda>v. ''0'') MonitorImageGenerator snapshot_7_disks)) = 1100
   \<and> box_height (boxes (snd (generate (\<lambda>v. ''0'') MonitorImageGenerator snapshot_7_disks)) ! 5)
       = 230
   \<and> length (disk_rows (snd (generate (\<lambda>v. ''0'') MonitorImageGenerator snapshot_7_disks))) = 5"
proof -
  have d: "snapshot_disks snapshot_7_disks = Some (replicate 7 entry_root)"
    by (simp add: snapshot_7_disks_def)
  have n: "(7::int) = int (length (replicate 7 entry_root))" by simp
  show ?thesis
    using d n generate_height_by_disk_count [OF d n, of "\<lambda>v. ''0''"] by simp
qed

subsection \<open>The status command\<close>

lemma collect_status_fields:
  "bot_qq (collect_status_data sys) = config_bot_qq_id sys"
  "bot_memory_mb (collect_status_data sys) =
     (case psutil_process sys of None \<Rightarrow> 0 | Some p \<Rightarrow> real (proc_rss p) / 1024 / 1024)"
  "cpu_percent (collect_status_data sys) = psutil_cpu_percent sys"
  "enabled_plugin_count (collect_status_data sys) =
     length (filter (\<lambda>p. p) (plugins_enabled sys))"
  "plugin_count (collect_status_data sys) = length (plugins_enabled sys)"
  by (simp_all add: collect_status_data_def get_bot_process_info_def Let_def
      split: option.split)

lemma status_text_stripped:
  "py_strip (status_text fmtr fmt1 data) =
     tl status_text_0 @ bot_qq data
     @ status_text_1 @ bot_uptime data
     @ status_text_2 @ fmt1 (bot_memory_mb data)
     @ status_text_3 @ str_int (bot_threads data)
     @ status_text_4 @ os_full_version data
     @ status_text_5 @ python_version data
     @ status_text_6 @ fmtr (cpu_percent data)
     @ status_text_7 @ fmtr (ram_percent data)
     @ status_text_8 @ fmt1 (ram_used_gb data) @ ''/'' @ fmt1 (ram_total_gb data)
     @ status_text_9 @ str_nat (enabled_plugin_count data) @ ''/''
     @ str_nat (plugin_count data) @ butlast status_text_10"
proof -
  obtain r where s: "status_text_0 = CHR 0x0A # CHR 0xF0 # r"
    by (simp add: status_text_0_def)
  have t: "status_text_10 = butlast (butlast status_text_10) @ [CHR 0xA8, CHR 0x0A]"
    by (simp add: status_text_10_def)
  have sp: "py_isspace (CHR 0x0A)" "\<not> py_isspace (CHR 0xF0)" "\<not> py_isspace (CHR 0xA8)"
    by (simp_all add: py_isspace_def)
  show ?thesis
    unfolding status_text_def
    using py_strip_between [OF s t sp(1) sp(1) sp(2) sp(3),
        of "bot_qq data
          @ status_text_1 @ bot_uptime data
          @ status_text_2 @ fmt1 (bot_memory_mb data)
          @ status_text_3 @ str_int (bot_threads data)
          @ status_text_4 @ os_full_version data
          @ status_text_5 @ python_version data
          @ status_text_6 @ fmtr (cpu_percent data)
          @ status_text_7 @ fmtr (ram_percent data)
          @ status_text_8 @ fmt1 (ram_used_gb data) @ ''/'' @ fmt1 (ram_total_gb data)
          @ status_text_9 @ str_nat (enabled_plugin_count data) @ ''/''
          @ str_nat (plugin_count data)"]
    by simp
qed

lemma sublist_between: "ys = ps @ xs @ ss \<Longrightarrow> sublist xs ys"
  by auto

lemma status_report_contains:
  fixes data :: snapshot
    and fmtr fmt1 :: "real \<Rightarrow> string"
  defines "report \<equiv> py_strip (status_text fmtr fmt1 data)"
  shows "sublist (bot_qq data) report"
    and "sublist (fmt1 (bot_memory_mb data)) report"
    and "sublist (fmtr (cpu_percent data) @ ''%'') report"
    and "sublist (str_nat (enabled_plugin_count data) @ ''/'' @ str_nat (plugin_count data))
           report"
proof -
  show "sublist (bot_qq data) report"
    unfolding report_def status_text_stripped by (rule sublist_appendI)
  show "sublist (fmt1 (bot_memory_mb data)) report"
    unfolding report_def status_text_stripped
    by (rule sublist_between
        [where ps = "tl status_text_0 @ bot_qq data @ status_text_1 @ bot_uptime data
           @ status_text_2"
         and ss = "status_text_3 @ str_int (bot_threads data)
           @ status_text_4 @ os_full_version data
           @ status_text_5 @ python_version data
           @ status_text_6 @ fmtr (cpu_percent data)
           @ status_text_7 @ fmtr (ram_percent data)
           @ status_text_8 @ fmt1 (ram_used_gb data) @ ''/'' @ fmt1 (ram_total_gb data)
           @ status_text_9 @ str_nat (enabled_plugin_count data) @ ''/''
           @ str_nat (plugin_count data) @ butlast status_text_10"]) simp
  have pc: "status_text_7 = ''%'' @ tl status_text_7"
    by (simp add: status_text_7_def)
  show "sublist (fmtr (cpu_percent data) @ ''%'') report"
    unfolding report_def status_text_stripped
    by (rule sublist_between
        [where ps = "tl status_text_0 @ bot_qq data @ status_text_1 @ bot_uptime data
           @ status_text_2 @ fmt1 (bot_memory_mb data)
           @ status_text_3 @ str_int (bot_threads data)
           @ status_text_4 @ os_full_version data
           @ status_text_5 @ python_version data @ status_text_6"
         and ss = "tl status_text_7 @ fmtr (ram_percent data)
           @ status_text_8 @ fmt1 (ram_used_gb data) @ ''/'' @ fmt1 (ram_total_gb data)
           @ status_text_9 @ str_nat (enabled_plugin_count data) @ ''/''
           @ str_nat (plugin_count data) @ butlast status_text_10"])
      (subst pc, simp)
  show "sublist (str_nat (enabled_plugin_count data) @ ''/'' @ str_nat (plugin_count data))
      report"
    unfolding report_def status_text_stripped
    by (rule sublist_between
        [where ps = "tl status_text_0 @ bot_qq data @ status_text_1 @ bot_uptime data
           @ status_text_2 @ fmt1 (bot_memory_mb data)
           @ status_text_3 @ str_int (bot_threads data)
           @ status_text_4 @ os_full_version data
           @ status_text_5 @ python_version data
           @ status_text_6 @ fmtr (cpu_percent data)
           @ status_text_7 @ fmtr (ram_percent data)
           @ status_text_8 @ fmt1 (ram_used_gb data) @ ''/'' @ fmt1 (ram_total_gb data)
           @ status_text_9"
         and ss = "butlast status_text_10"]) simp
qed

lemma status_image_sent:
  "render (snd (generate fmt0 MonitorImageGenerator (collect_status_data sys))) = Inr img \<Longrightarrow>
     status_execute fmtr fmt1 fmt0 True render sys =
       ([SendImage img], (True, msg_status_image_sent, True))"
  by (simp add: status_execute_def Let_def)

text \<open>
  Claim C7. When the renderer raises, the command first sends the notice of the failed
  image generation with the text of the exception, then the text report, and returns
  success flag true with the message that the status information was sent; when the
  generator is not available it sends the text report alone and returns the same. The
  report is built from the snapshot collected for the image, and contains the bot
  identifier, the memory of the bot process, the CPU percentage followed by the percent
  sign, and the enabled and total plugin counts separated by a slash.
\<close>

theorem status_text_fallback:
  "(render (snd (generate fmt0 MonitorImageGenerator (collect_status_data sys))) = Inl e \<longrightarrow>
      status_execute fmtr fmt1 fmt0 True render sys =
        ([SendText (image_failed_0 @ e @ image_failed_1),
          SendText (py_strip (status_text fmtr fmt1 (collect_status_data sys)))],
         (True, msg_status_text_sent, True)))
   \<and> status_execute fmtr fmt1 fmt0 False render sys =
        ([SendText (py_strip (status_text fmtr fmt1 (collect_status_data sys)))],
         (True, msg_status_text_sent, True))
   \<and> sublist (config_bot_qq_id sys)
        (py_strip (status_text fmtr fmt1 (collect_status_data sys)))
   \<and> sublist
        (fmt1 (case psutil_process sys of
                 None \<Rightarrow> 0 | Some p \<Rightarrow> real (proc_rss p) / 1024 / 1024))
        (py_strip (status_text fmtr fmt1 (collect_status_data sys)))
   \<and> sublist (fmtr (psutil_cpu_percent sys) @ ''%'')
        (py_strip (status_text fmtr fmt1 (collect_status_data sys)))
   \<and> sublist
        (str_nat (length (filter (\<lambda>p. p) (plugins_enabled sys))) @ ''/''
           @ str_nat (length (plugins_enabled sys)))
        (py_strip (status_text fmtr fmt1 (collect_status_data sys)))"
proof (intro conjI impI)
  assume "render (snd (generate fmt0 MonitorImageGenerator (collect_status_data sys))) = Inl e"
  then show "status_execute fmtr fmt1 fmt0 True render sys =
      ([SendText (image_failed_0 @ e @ image_failed_1),
        SendText (py_strip (status_text fmtr fmt1 (collect_status_data sys)))],
       (True, msg_status_text_sent, True))"
    by (simp add: status_execute_def Let_def)
next
  show "status_execute fmtr fmt1 fmt0 False render sys =
      ([SendText (py_strip (status_text fmtr fmt1 (collect_status_data sys)))],
       (True, msg_status_text_sent, True))"
    by (simp add: status_execute_def Let_def)
next
  show "sublist (config_bot_qq_id sys)
      (py_strip (status_text fmtr fmt1 (collect_status_data sys)))"
    using status_report_contains(1)
      [where data = "collect_status_data sys" and fmtr = fmtr and ?fmt1.0 = fmt1]
    by (simp only: collect_status_fields)
next
  show "sublist
      (fmt1 (case psutil_process sys of
               None \<Rightarrow> 0 | Some p \<Rightarrow> real (proc_rss p) / 1024 / 1024))
      (py_strip (status_text fmtr fmt1 (collect_status_data sys)))"
    using status_report_contains(2)
      [where data = "collect_status_data sys" and fmtr = fmtr and ?fmt1.0 = fmt1]
    by (simp only: collect_status_fields)
next
  show "sublist (fmtr (psutil_cpu_percent sys) @ ''%'')
      (py_strip (status_text fmtr fmt1 (collect_status_data sys)))"
    using status_report_contains(3)
      [where data = "collect_status_data sys" and fmtr = fmtr and ?fmt1.0 = fmt1]
    by (simp only: collect_status_fields)
next
  show "sublist
      (str_nat (length (filter (\<lambda>p. p) (plugins_enabled sys))) @ ''/''
         @ str_nat (length (plugins_enabled sys)))
      (py_strip (status_text fmtr fmt1 (collect_status_data sys)))"
    using status_report_contains(4)
      [where data = "collect_status_data sys" and fmtr = fmtr and ?fmt1.0 = fmt1]
    by (simp only: collect_status_fields)
qed

theorem status_text_fallback_witness:
  "render_raises
     (snd (generate (\<lambda>v. ''0'') MonitorImageGenerator (collect_status_data system_example)))
     = Inl ''cannot open resource''
   \<and> status_execute (\<lambda>v. ''12.0'') (\<lambda>v. ''150.0'') (\<lambda>v. ''0'') True render_raises
       system_example =
       ([SendText (image_failed_0 @ ''cannot open resource'' @ image_failed_1),
         SendText (py_strip (status_text (\<lambda>v. ''12.0'') (\<lambda>v. ''150.0'')
           (collect_status_data system_example)))],
        (True, msg_status_text_sent, True))
   \<and> sublist ''10001''
       (py_strip (status_text (\<lambda>v. ''12.0'') (\<lambda>v. ''150.0'')
          (collect_status_data system_example)))
   \<and> sublist ''2/3''
       (py_strip (status_text (\<lambda>v. ''12.0'') (\<lambda>v. ''150.0'')
          (collect_status_data system_example)))"
proof -
  have r: "render_raises
      (snd (generate (\<lambda>v. ''0'') MonitorImageGenerator (collect_status_data system_example)))
      = Inl ''cannot open resource''"
    by (simp add: render_raises_def)
  have v: "config_bot_qq_id system_example = ''10001''"
    "str_nat (length (filter (\<lambda>p. p) (plugins_enabled system_example))) @ ''/''
       @ str_nat (length (plugins_enabled system_example)) = ''2/3''"
    by (simp_all add: system_example_def str_nat_digit)
  show ?thesis
    using r v status_text_fallback
      [of render_raises "\<lambda>v. ''0''" system_example "''cannot open resource''"
        "\<lambda>v. ''12.0''" "\<lambda>v. ''150.0''"]
    by simp
qed

end
